theory Spec2Isabelle
  imports Main "HOL-Library.Word" "HOL-Library.Signed_Division"
begin

unbundle bit_operations_syntax

section \<open>Data model\<close>

text \<open>
  Go's \<open>[]byte\<close> is a list of 8-bit words, Go's \<open>string\<close> (a byte sequence) is a
  \<open>string\<close>, Go's \<open>int\<close> is \<open>int\<close> and \<open>uint32\<close> is a 32-bit word; the conversion
  \<open>uint32(usage)\<close> is \<open>word_of_int\<close>.
\<close>

type_synonym byte = "8 word"
type_synonym bytes = "byte list"
type_synonym uint32 = "32 word"

definition string_of_bytes :: "bytes \<Rightarrow> string" where
  "string_of_bytes bs = map (\<lambda>b. char_of (unat b)) bs"

text \<open>
  Modelled from the spec: the KRB-ERROR structure of package messages is not in the
  sources; the spec names its error-code and its e-data.
\<close>

record KRBError =
  ErrorCode :: int
  EData :: bytes

text \<open>
  Errors are values. \<open>ErrorsNew\<close> is \<open>errors.New\<close>, \<open>Errorf\<close> is \<open>fmt.Errorf\<close> wrapping
  an inner error, \<open>UnknownEType\<close> is the error of the \<open>default\<close> branch of \<open>GetEtype\<close>,
  \<open>External\<close> is an error raised by a collaborator that is not in the sources,
  \<open>KDCError\<close> is a KRB-ERROR returned as a Go error. \<open>RuntimePanic\<close> is not an error
  value of the program: it stands for a run-time panic (a slice bound or an index
  out of range), which leaves the function without passing through its error result.
\<close>

datatype error =
    ErrorsNew string
  | Errorf string error
  | UnknownEType int
  | External string
  | KDCError KRBError
  | RuntimePanic

record PrincipalName =
  NameType :: int
  NameString :: "string list"

record EncryptionKey =
  KeyType :: int
  KeyValue :: bytes

record EncryptedData =
  EType :: int
  KVNO :: int
  Cipher :: bytes

record PAData =
  PADataType :: int
  PADataValue :: bytes

record ETypeInfoEntry =
  EType_i :: int
  Salt_i :: bytes

record ETypeInfo2Entry =
  EType_i2 :: int
  Salt_i2 :: string
  S2KParams :: bytes

subsection \<open>Slices\<close>

text \<open>
  \<open>b[:n]\<close> and \<open>b[n:]\<close>. A bound outside \<open>0 .. len(b)\<close> panics. (Go allows a high
  bound up to the capacity of the slice; capacity is not modelled, so a high bound above
  the length counts as out of range.)
\<close>

definition slice_to :: "'a list \<Rightarrow> int \<Rightarrow> error + 'a list" where
  "slice_to xs n =
     (if 0 \<le> n \<and> n \<le> int (length xs) then Inr (take (nat n) xs) else Inl RuntimePanic)"

definition slice_from :: "'a list \<Rightarrow> int \<Rightarrow> error + 'a list" where
  "slice_from xs n =
     (if 0 \<le> n \<and> n \<le> int (length xs) then Inr (drop (nat n) xs) else Inl RuntimePanic)"

text \<open>\<open>make([]byte, n)\<close> panics on a negative length.\<close>

definition make_bytes :: "int \<Rightarrow> error + bytes" where
  "make_bytes n = (if n < 0 then Inl RuntimePanic else Inr (replicate (nat n) 0))"

text \<open>\<open>copy(dst, src)\<close> overwrites the first \<open>min(len(dst), len(src))\<close> elements of dst.\<close>

definition copy_into :: "'a list \<Rightarrow> 'a list \<Rightarrow> 'a list" where
  "copy_into dst src = take (length dst) src @ drop (length src) dst"

subsection \<open>Encryption types\<close>

text \<open>
  The interface \<open>EType\<close>, with the methods the functions below call. The two
  implementations \<open>Aes128CtsHmacSha96\<close> and \<open>Aes256CtsHmacSha96\<close> are not in the
  sources, so an encryption type is a parameter: a record of its methods. \<open>HMAC E k m\<close>
  is \<open>hmac.New(etype.GetHash, k)\<close> written with \<open>m\<close> and summed.
\<close>

record EType =
  GetETypeID :: int
  GetKeyByteSize :: int
  GetDefaultStringToKeyParams :: string
  StringToKey :: "string \<Rightarrow> string \<Rightarrow> string \<Rightarrow> error + bytes"
  GetHMACBitLength :: int
  Encrypt :: "bytes \<Rightarrow> bytes \<Rightarrow> error + (bytes \<times> bytes)"
  Decrypt :: "bytes \<Rightarrow> bytes \<Rightarrow> error + bytes"
  GetConfounderByteSize :: int
  DeriveKey :: "bytes \<Rightarrow> bytes \<Rightarrow> error + bytes"
  HMAC :: "bytes \<Rightarrow> bytes \<Rightarrow> bytes"

record registry =
  Aes128CtsHmacSha96 :: EType
  Aes256CtsHmacSha96 :: EType

text \<open>
  Modelled from the spec: the constants of package iana/etype are not in the sources;
  the spec gives 17 = AES128-CTS-HMAC-SHA1-96 and 18 = AES256-CTS-HMAC-SHA1-96.
\<close>

definition AES128_CTS_HMAC_SHA1_96 :: int where
  "AES128_CTS_HMAC_SHA1_96 = 17"

definition AES256_CTS_HMAC_SHA1_96 :: int where
  "AES256_CTS_HMAC_SHA1_96 = 18"

definition GetEtype :: "registry \<Rightarrow> int \<Rightarrow> error + EType" where
  "GetEtype R i =
     (if i = AES128_CTS_HMAC_SHA1_96 then Inr (Aes128CtsHmacSha96 R)
      else if i = AES256_CTS_HMAC_SHA1_96 then Inr (Aes256CtsHmacSha96 R)
      else Inl (UnknownEType i))"

subsection \<open>Key usage constants\<close>

definition getUsage :: "uint32 \<Rightarrow> byte \<Rightarrow> bytes" where
  "getUsage un oct =
     [ucast (drop_bit 24 un), ucast (drop_bit 16 un), ucast (drop_bit 8 un), ucast un] @ [oct]"

definition GetUsageKc :: "uint32 \<Rightarrow> bytes" where
  "GetUsageKc un = getUsage un 0x99"

definition GetUsageKe :: "uint32 \<Rightarrow> bytes" where
  "GetUsageKe un = getUsage un 0xAA"

definition GetUsageKi :: "uint32 \<Rightarrow> bytes" where
  "GetUsageKi un = getUsage un 0x55"

subsection \<open>Integrity hash\<close>

definition getHash :: "bytes \<Rightarrow> bytes \<Rightarrow> bytes \<Rightarrow> EType \<Rightarrow> error + bytes" where
  "getHash pt key usage E =
     (case DeriveKey E key usage of
        Inl e \<Rightarrow> Inl (Errorf ''Unable to derive key for checksum'' e)
      | Inr k \<Rightarrow>
          (let p = copy_into (replicate (length pt) 0) pt
           in slice_to (HMAC E k p) (GetHMACBitLength E sdiv 8)))"

definition GetChecksumHash :: "bytes \<Rightarrow> bytes \<Rightarrow> uint32 \<Rightarrow> EType \<Rightarrow> error + bytes" where
  "GetChecksumHash pt key usage E = getHash pt key (GetUsageKc usage) E"

definition GetIntegrityHash :: "bytes \<Rightarrow> bytes \<Rightarrow> uint32 \<Rightarrow> EType \<Rightarrow> error + bytes" where
  "GetIntegrityHash pt key usage E = getHash pt key (GetUsageKi usage) E"

text \<open>
  \<open>VerifyIntegrity\<close> drops the error of \<open>GetIntegrityHash\<close>: the expected MAC is then
  nil. \<open>hmac.Equal\<close> is equality of the two byte strings. A panic of the slicing is
  kept apart from the boolean result.
\<close>

definition VerifyIntegrity :: "bytes \<Rightarrow> bytes \<Rightarrow> bytes \<Rightarrow> uint32 \<Rightarrow> EType \<Rightarrow> error + bool" where
  "VerifyIntegrity key ct pt usage E =
     (case make_bytes (GetHMACBitLength E sdiv 8) of
        Inl p \<Rightarrow> Inl p
      | Inr h0 \<Rightarrow>
          (case slice_from ct (int (length ct) - GetHMACBitLength E sdiv 8) of
             Inl p \<Rightarrow> Inl p
           | Inr t \<Rightarrow>
               (let h = copy_into h0 t
                in case GetIntegrityHash pt key usage E of
                     Inl e \<Rightarrow> if e = RuntimePanic then Inl RuntimePanic else Inr (h = [])
                   | Inr expectedMAC \<Rightarrow> Inr (h = expectedMAC))))"

text \<open>
  Modelled from the spec: the method \<open>VerifyIntegrity\<close> of the two encryption types is
  not in the sources; the spec describes it as recomputing the Ki-derived HMAC truncated
  to 96 bits over the plaintext and comparing it with the MAC at the end of the cipher,
  which is what the function \<open>VerifyIntegrity\<close> of this package does.
\<close>

definition EType_VerifyIntegrity :: "EType \<Rightarrow> bytes \<Rightarrow> bytes \<Rightarrow> bytes \<Rightarrow> uint32 \<Rightarrow> error + bool" where
  "EType_VerifyIntegrity E key ct pt usage = VerifyIntegrity key ct pt usage E"

subsection \<open>Decryption and encryption with integrity\<close>

definition DecryptEncPart :: "bytes \<Rightarrow> EncryptedData \<Rightarrow> EType \<Rightarrow> uint32 \<Rightarrow> error + bytes" where
  "DecryptEncPart key pe E usage =
     (case DeriveKey E key (GetUsageKe usage) of
        Inl e \<Rightarrow> Inl (Errorf ''Error deriving key'' e)
      | Inr k \<Rightarrow>
          (case slice_to (Cipher pe) (int (length (Cipher pe)) - GetHMACBitLength E sdiv 8) of
             Inl p \<Rightarrow> Inl p
           | Inr body \<Rightarrow>
               (case Decrypt E k body of
                  Inl e \<Rightarrow> Inl (Errorf ''Error decrypting'' e)
                | Inr b \<Rightarrow>
                    (case EType_VerifyIntegrity E key (Cipher pe) b usage of
                       Inl p \<Rightarrow> Inl p
                     | Inr ok \<Rightarrow>
                         if \<not> ok
                         then Inl (ErrorsNew ''Error decrypting encrypted part: integrity verification failed'')
                         else slice_from b (GetConfounderByteSize E)))))"

text \<open>
  \<open>GetEncryptedData\<close>. The random source \<open>rand.Read\<close> is a parameter: \<open>rnd n\<close> is what
  it delivers for a buffer of \<open>n\<close> bytes. The error of \<open>GetIntegrityHash\<close> is dropped
  by the source: the MAC appended is then nil.
\<close>

definition GetEncryptedData ::
  "registry \<Rightarrow> (nat \<Rightarrow> error + bytes) \<Rightarrow> bytes \<Rightarrow> EncryptionKey \<Rightarrow> int \<Rightarrow> int \<Rightarrow> error + EncryptedData" where
  "GetEncryptedData R rnd pt key usage kvno =
     (case GetEtype R (KeyType key) of
        Inl e \<Rightarrow> Inl (Errorf ''Error getting etype'' e)
      | Inr E \<Rightarrow>
          (case (if usage \<noteq> 0
                 then (case DeriveKey E (KeyValue key) (GetUsageKe (word_of_int usage)) of
                         Inl e \<Rightarrow> Inl (Errorf ''Error deriving key'' e)
                       | Inr k' \<Rightarrow> Inr k')
                 else Inr (KeyValue key)) of
             Inl e \<Rightarrow> Inl e
           | Inr k \<Rightarrow>
               (case make_bytes (GetConfounderByteSize E) of
                  Inl p \<Rightarrow> Inl p
                | Inr c0 \<Rightarrow>
                    (case rnd (length c0) of
                       Inl e \<Rightarrow> Inl (Errorf ''Could not generate random confounder'' e)
                     | Inr r \<Rightarrow>
                         (let pt' = copy_into c0 r @ pt
                          in case Encrypt E k pt' of
                               Inl e \<Rightarrow> Inl (Errorf ''Error encrypting data'' e)
                             | Inr (s, b) \<Rightarrow>
                                 (case GetIntegrityHash pt' (KeyValue key) (word_of_int usage) E of
                                    Inl e \<Rightarrow>
                                      if e = RuntimePanic then Inl RuntimePanic
                                      else Inr \<lparr>EType = KeyType key, KVNO = kvno, Cipher = b\<rparr>
                                  | Inr ih \<Rightarrow>
                                      Inr \<lparr>EType = KeyType key, KVNO = kvno, Cipher = b @ ih\<rparr>))))))"

subsection \<open>Salt\<close>

definition GetSalt :: "PrincipalName \<Rightarrow> string \<Rightarrow> string" where
  "GetSalt pn realm = foldl (\<lambda>sb n. sb @ n) ([] @ realm) (NameString pn)"

subsection \<open>Key from password\<close>

text \<open>
  Modelled from the spec: the constants of package iana/patype are not in the sources;
  the spec orders them PA-PW-SALT < PA-ETYPE-INFO < PA-ETYPE-INFO2 and names
  PA-ENC-TIMESTAMP; the values are those of RFC 4120.
\<close>

definition PA_ENC_TIMESTAMP :: int where
  "PA_ENC_TIMESTAMP = 2"

definition PA_PW_SALT :: int where
  "PA_PW_SALT = 3"

definition PA_ETYPE_INFO :: int where
  "PA_ETYPE_INFO = 11"

definition PA_ETYPE_INFO2 :: int where
  "PA_ETYPE_INFO2 = 19"

text \<open>\<open>hex.EncodeToString\<close>: two lower-case hexadecimal digits for each byte.\<close>

definition hexdigit :: "nat \<Rightarrow> char" where
  "hexdigit n = ''0123456789abcdef'' ! (n mod 16)"

definition EncodeToString :: "bytes \<Rightarrow> string" where
  "EncodeToString bs = concat (map (\<lambda>b. [hexdigit (unat (drop_bit 4 b)), hexdigit (unat (b AND 15))]) bs)"

text \<open>
  The ASN.1 decoders of \<open>ETypeInfo\<close> and \<open>ETypeInfo2\<close> are not in the sources: they
  are parameters.
\<close>

record types_codec =
  ETypeInfo_Unmarshal :: "bytes \<Rightarrow> error + ETypeInfoEntry list"
  ETypeInfo2_Unmarshal :: "bytes \<Rightarrow> error + ETypeInfo2Entry list"

text \<open>The variables the loop over the PA-DATA sequence reads and writes.\<close>

record pa_state =
  etype :: EType
  sk2p :: string
  salt :: string
  paID :: int

text \<open>
  One iteration of the loop: the \<open>switch\<close> on the type of the entry. \<open>et[0]\<close> on an
  empty sequence panics.
\<close>

definition pa_step :: "registry \<Rightarrow> types_codec \<Rightarrow> int \<Rightarrow> PAData \<Rightarrow> pa_state \<Rightarrow> error + pa_state" where
  "pa_step R D etypeId pa st =
     (if PADataType pa = PA_PW_SALT then
        (if paID st > PADataType pa then Inr st
         else Inr (st\<lparr>salt := string_of_bytes (PADataValue pa)\<rparr>))
      else if PADataType pa = PA_ETYPE_INFO then
        (if paID st > PADataType pa then Inr st
         else case ETypeInfo_Unmarshal D (PADataValue pa) of
                Inl e \<Rightarrow> Inl (Errorf ''Error unmashalling PA Data to PA-ETYPE-INFO2'' e)
              | Inr et \<Rightarrow>
                  (case et of
                     [] \<Rightarrow> Inl RuntimePanic
                   | e0 # rest \<Rightarrow>
                       (if etypeId \<noteq> EType_i e0
                        then (case GetEtype R (EType_i e0) of
                                Inl e \<Rightarrow> Inl (Errorf ''Error getting encryption type'' e)
                              | Inr E \<Rightarrow> Inr (st\<lparr>etype := E, salt := string_of_bytes (Salt_i e0)\<rparr>))
                        else Inr (st\<lparr>salt := string_of_bytes (Salt_i e0)\<rparr>))))
      else if PADataType pa = PA_ETYPE_INFO2 then
        (if paID st > PADataType pa then Inr st
         else case ETypeInfo2_Unmarshal D (PADataValue pa) of
                Inl e \<Rightarrow> Inl (Errorf ''Error unmashalling PA Data to PA-ETYPE-INFO2'' e)
              | Inr et2 \<Rightarrow>
                  (case et2 of
                     [] \<Rightarrow> Inl RuntimePanic
                   | e0 # rest \<Rightarrow>
                       (case (if etypeId \<noteq> EType_i2 e0
                              then (case GetEtype R (EType_i2 e0) of
                                      Inl e \<Rightarrow> Inl (Errorf ''Error getting encryption type'' e)
                                    | Inr E \<Rightarrow> Inr (st\<lparr>etype := E\<rparr>))
                              else Inr st) of
                          Inl e \<Rightarrow> Inl e
                        | Inr st1 \<Rightarrow>
                            (let st2 = (if length (S2KParams e0) = 4
                                        then st1\<lparr>sk2p := EncodeToString (S2KParams e0)\<rparr>
                                        else st1)
                             in Inr (st2\<lparr>salt := Salt_i2 e0\<rparr>)))))
      else Inr st)"

fun pa_loop :: "registry \<Rightarrow> types_codec \<Rightarrow> int \<Rightarrow> PAData list \<Rightarrow> pa_state \<Rightarrow> error + pa_state" where
  "pa_loop R D etypeId [] st = Inr st"
| "pa_loop R D etypeId (pa # pas) st =
     (case pa_step R D etypeId pa st of
        Inl e \<Rightarrow> Inl e
      | Inr st' \<Rightarrow> pa_loop R D etypeId pas st')"

definition GetKeyFromPassword ::
  "registry \<Rightarrow> types_codec \<Rightarrow> string \<Rightarrow> PrincipalName \<Rightarrow> string \<Rightarrow> int \<Rightarrow> PAData list
     \<Rightarrow> error + (EncryptionKey \<times> EType)" where
  "GetKeyFromPassword R D passwd cn realm etypeId pas =
     (case GetEtype R etypeId of
        Inl e \<Rightarrow> Inl (Errorf ''Error getting encryption type'' e)
      | Inr E \<Rightarrow>
          (case pa_loop R D etypeId pas
                  \<lparr>etype = E, sk2p = GetDefaultStringToKeyParams E, salt = [], paID = 0\<rparr> of
             Inl e \<Rightarrow> Inl e
           | Inr st \<Rightarrow>
               (let salt' = (if salt st = [] then GetSalt cn realm else salt st)
                in case StringToKey (etype st) passwd salt' (sk2p st) of
                     Inl e \<Rightarrow> Inl (Errorf ''Error deriving key from string'' e)
                   | Inr k \<Rightarrow> Inr (\<lparr>KeyType = etypeId, KeyValue = k\<rparr>, etype st))))"

text \<open>
  Invariant I1 of the data model: the length of the key value is the key size of the
  encryption type that the key's type field names.
\<close>

definition I1 :: "registry \<Rightarrow> EncryptionKey \<Rightarrow> bool" where
  "I1 R key =
     (case GetEtype R (KeyType key) of
        Inl e \<Rightarrow> False
      | Inr E \<Rightarrow> int (length (KeyValue key)) = GetKeyByteSize E)"

section \<open>Messages\<close>

text \<open>
  Modelled from the spec: the types \<open>Ticket\<close>, the encrypted part of a KDC reply, the
  KDC replies and the requests are declared in files that are not in the sources. The
  records keep the fields that the functions below read or write; \<open>time.Time\<close> is an
  integer.
\<close>

type_synonym time = int

record Ticket =
  TktVNO :: int
  Realm :: string
  SName :: PrincipalName
  EncPart :: EncryptedData

record EncKDCRepPart =
  Key :: EncryptionKey
  Enc_AuthTime :: time
  Enc_EndTime :: time
  Enc_RenewTill :: time
  KeyExpiration :: time

record KDCRep =
  Rep_Ticket :: Ticket
  DecryptedEncPart :: EncKDCRepPart

type_synonym ASRep = KDCRep
type_synonym TGSRep = KDCRep

record ASReq =
  PAData :: "PAData list"
  ReqBody :: bytes

record TGSReq =
  TGS_PAData :: "PAData list"
  TGS_ReqBody :: bytes

record BitString =
  BitBytes :: bytes
  BitLength :: int

record RawValue =
  Class :: int
  Tag :: int
  IsCompound :: bool
  Bytes :: bytes

record marshalAPReq =
  PVNO_m :: int
  MsgType_m :: int
  APOptions_m :: BitString
  Ticket_m :: RawValue
  Authenticator_m :: EncryptedData

record APReq =
  PVNO :: int
  MsgType :: int
  APOptions :: BitString
  Ticket :: Ticket
  Authenticator :: EncryptedData

text \<open>
  Modelled from the spec: the constants of packages iana/msgtype, iana/asnAppTag and
  iana/errorcode are not in the sources; the spec gives 14 for the message type and the
  application tag of AP-REQ and 25 for KDC_ERR_PREAUTH_REQUIRED.
\<close>

definition KRB_AP_REQ :: int where
  "KRB_AP_REQ = 14"

definition APREQ :: int where
  "APREQ = 14"

definition KDC_ERR_PREAUTH_REQUIRED :: int where
  "KDC_ERR_PREAUTH_REQUIRED = 25"

text \<open>
  The ASN.1 library and \<open>types.UnmarshalTicket\<close> are not in the sources: they are
  parameters. \<open>asn1_UnmarshalWithParams b tag\<close> decodes \<open>b\<close> as a \<open>marshalAPReq\<close> under
  the application tag; \<open>UnmarshalTicket\<close> returns a ticket and an optional error, as
  the Go function returns both.
\<close>

record messages_codec =
  asn1_UnmarshalWithParams :: "bytes \<Rightarrow> int \<Rightarrow> error + marshalAPReq"
  UnmarshalTicket :: "bytes \<Rightarrow> Ticket \<times> error option"

text \<open>
  \<open>(a *APReq) Unmarshal(b)\<close> writes into its receiver: the function returns the
  optional error and the receiver afterwards.
\<close>

definition APReq_Unmarshal :: "messages_codec \<Rightarrow> APReq \<Rightarrow> bytes \<Rightarrow> error option \<times> APReq" where
  "APReq_Unmarshal M a b =
     (case asn1_UnmarshalWithParams M b APREQ of
        Inl e \<Rightarrow> (Some e, a)
      | Inr m \<Rightarrow>
          if MsgType_m m \<noteq> KRB_AP_REQ
          then (Some (ErrorsNew ''Message ID does not indicate a KRB_AS_REP''), a)
          else
            (let a1 = a\<lparr>PVNO := PVNO_m m\<rparr>;
                 a2 = a1\<lparr>MsgType := MsgType_m m\<rparr>;
                 a3 = a2\<lparr>APOptions := APOptions_m m\<rparr>;
                 a4 = a3\<lparr>Authenticator := Authenticator_m m\<rparr>
             in case UnmarshalTicket M (Bytes (Ticket_m m)) of
                  (tkt, Some e) \<Rightarrow>
                    (Some (Errorf ''Error unmarshalling ticket in AP_REQ;'' e), a4\<lparr>Ticket := tkt\<rparr>)
                | (tkt, None) \<Rightarrow> (None, a4\<lparr>Ticket := tkt\<rparr>)))"

section \<open>Client\<close>

record LibDefaults =
  Default_tkt_enctype_ids :: "int list"
  Default_realm :: string

record Config =
  LibDefaults :: LibDefaults

record Credentials =
  Username :: string
  Keytab :: bytes

record Session =
  AuthTime :: time
  EndTime :: time
  RenewTill :: time
  TGT :: Ticket
  SessionKey :: EncryptionKey
  SessionKeyExpiration :: time

record CacheEntry =
  Entry_Ticket :: Ticket
  Entry_AuthTime :: time
  Entry_EndTime :: time
  Entry_RenewTill :: time

text \<open>
  Modelled from the spec: the ticket cache and its \<open>AddEntry\<close> are not in the sources;
  the spec describes the cache as entries (service-ticket, auth-time, end-time,
  renew-till) keyed by the service principal name, here the name components of the
  ticket's sname.
\<close>

type_synonym Cache = "string list \<rightharpoonup> CacheEntry"

definition AddEntry :: "Cache \<Rightarrow> Ticket \<Rightarrow> time \<Rightarrow> time \<Rightarrow> time \<Rightarrow> Cache" where
  "AddEntry c tkt authTime endTime renewTill =
     c(NameString (SName tkt) \<mapsto>
         \<lparr>Entry_Ticket = tkt, Entry_AuthTime = authTime, Entry_EndTime = endTime,
          Entry_RenewTill = renewTill\<rparr>)"

text \<open>
  The client. \<open>Session\<close> is a pointer in the source: \<open>None\<close> is nil. \<open>Sent\<close> is the
  state of the transport behind \<open>SendToKDC\<close>: the requests sent to the KDC so far,
  oldest first.
\<close>

record Client =
  Credentials :: Credentials
  Config :: Config
  Session :: "Session option"
  Cache :: Cache
  Sent :: "bytes list"

text \<open>
  The collaborators of the client that are not in the sources are parameters: the check
  of the configuration, the construction, marshalling and unmarshalling of the messages,
  the decryption and validation of the replies, the keytab, the clock behind
  \<open>GetPAEncTSEncAsnMarshalled\<close>, the random source, the encryption types, and the KDC
  itself: \<open>KDC sent b\<close> is its reply to the request \<open>b\<close> after the requests \<open>sent\<close>.
  Go functions that return a value together with an error return a pair here where the
  source reads the value without looking at the error.
\<close>

record env =
  Registry :: registry
  Rand :: "nat \<Rightarrow> error + bytes"
  IsConfigured :: "Credentials \<Rightarrow> Config \<Rightarrow> bool"
  NewASReq :: "Config \<Rightarrow> string \<Rightarrow> ASReq"
  ASReq_Marshal :: "ASReq \<Rightarrow> error + bytes"
  KDC :: "bytes list \<Rightarrow> bytes \<Rightarrow> error + bytes"
  ASRep_Unmarshal :: "bytes \<Rightarrow> error + ASRep"
  KRBError_Unmarshal :: "bytes \<Rightarrow> error + KRBError"
  GetPAEncTSEncAsnMarshalled :: "error + bytes"
  GetEncryptionKey :: "bytes \<Rightarrow> string \<Rightarrow> string \<Rightarrow> int \<Rightarrow> int \<Rightarrow> EncryptionKey \<times> error option"
  ASRep_DecryptEncPart :: "Credentials \<Rightarrow> ASRep \<Rightarrow> error + ASRep"
  ASRep_IsValid :: "Config \<Rightarrow> ASReq \<Rightarrow> ASRep \<Rightarrow> bool \<times> error"
  NewTGSReq :: "string \<Rightarrow> Config \<Rightarrow> Ticket \<Rightarrow> EncryptionKey \<Rightarrow> PrincipalName \<Rightarrow> bool \<Rightarrow> error + TGSReq"
  TGSReq_Marshal :: "TGSReq \<Rightarrow> error + bytes"
  TGSRep_Unmarshal :: "bytes \<Rightarrow> error + TGSRep"
  TGSRep_DecryptEncPart :: "EncryptionKey \<Rightarrow> TGSRep \<Rightarrow> error + TGSRep"
  TGSRep_IsValid :: "Config \<Rightarrow> TGSReq \<Rightarrow> TGSRep \<Rightarrow> bool \<times> error"

definition SendToKDC :: "env \<Rightarrow> Client \<Rightarrow> bytes \<Rightarrow> (error + bytes) \<times> Client" where
  "SendToKDC V cl b = (KDC V (Sent cl) b, cl\<lparr>Sent := Sent cl @ [b]\<rparr>)"

subsection \<open>AS exchange\<close>

text \<open>
  The body of \<open>if krberr.ErrorCode == errorcode.KDC_ERR_PREAUTH_REQUIRED\<close>: the
  timestamp, the strongest configured encryption type (the list is sorted in place,
  largest first, and \<open>[0]\<close> panics on an empty list), the key from the keytab (its error
  is overwritten before it is read), the encrypted timestamp, the second request and its
  reply. \<open>None\<close> means that the block ran to its end.
\<close>

definition ASExchange_preauth :: "env \<Rightarrow> Client \<Rightarrow> ASReq \<Rightarrow> error option \<times> Client" where
  "ASExchange_preauth V cl a =
     (case GetPAEncTSEncAsnMarshalled V of
        Inl e \<Rightarrow> (Some (Errorf ''Error creating PAEncTSEnc for Pre-Authentication'' e), cl)
      | Inr paTSb \<Rightarrow>
          (let ids = rev (sort (Default_tkt_enctype_ids (LibDefaults (Config cl))));
               cl1 = cl\<lparr>Config := (Config cl)\<lparr>LibDefaults :=
                        (LibDefaults (Config cl))\<lparr>Default_tkt_enctype_ids := ids\<rparr>\<rparr>\<rparr>
           in case ids of
                [] \<Rightarrow> (Some RuntimePanic, cl1)
              | i0 # rest \<Rightarrow>
                  (case GetEtype (Registry V) i0 of
                     Inl e \<Rightarrow> (Some (Errorf ''Error creating etype'' e), cl1)
                   | Inr et \<Rightarrow>
                       (let key = fst (GetEncryptionKey V (Keytab (Credentials cl1))
                                         (Username (Credentials cl1))
                                         (Default_realm (LibDefaults (Config cl1))) 1 (GetETypeID et))
                        in case GetEncryptedData (Registry V) (Rand V) paTSb key 0 1 of
                             Inl e \<Rightarrow>
                               if e = RuntimePanic then (Some RuntimePanic, cl1)
                               else (Some (Errorf ''Error encrypting pre-authentication timestamp'' e), cl1)
                           | Inr paEncTS \<Rightarrow>
                               (let pa = \<lparr>PADataType = PA_ENC_TIMESTAMP, PADataValue = Cipher paEncTS\<rparr>;
                                    a1 = a\<lparr>PAData := PAData a @ [pa]\<rparr>
                                in case ASReq_Marshal V a1 of
                                     Inl e \<Rightarrow> (Some (Errorf ''Error marshalling AS_REQ'' e), cl1)
                                   | Inr b \<Rightarrow>
                                       (case SendToKDC V cl1 b of
                                          (Inl e, cl2) \<Rightarrow>
                                            (Some (Errorf ''Error sending AS_REQ to KDC'' e), cl2)
                                        | (Inr rb, cl2) \<Rightarrow>
                                            (case ASRep_Unmarshal V rb of
                                               Inl e \<Rightarrow>
                                                 (Some (Errorf ''Could not unmarshal data returned from KDC'' e), cl2)
                                             | Inr ar \<Rightarrow> (None, cl2))))))))"

definition ASExchange :: "env \<Rightarrow> Client \<Rightarrow> error option \<times> Client" where
  "ASExchange V cl =
     (if \<not> IsConfigured V (Credentials cl) (Config cl)
      then (Some (ErrorsNew ''Client is not configured correctly.''), cl)
      else
        (let a = NewASReq V (Config cl) (Username (Credentials cl))
         in case ASReq_Marshal V a of
              Inl e \<Rightarrow> (Some (Errorf ''Error marshalling AS_REQ'' e), cl)
            | Inr b \<Rightarrow>
                (case SendToKDC V cl b of
                   (Inl e, cl1) \<Rightarrow> (Some (Errorf ''Error sending AS_REQ to KDC'' e), cl1)
                 | (Inr rb, cl1) \<Rightarrow>
                     (case ASRep_Unmarshal V rb of
                        Inl e0 \<Rightarrow>
                          (case KRBError_Unmarshal V rb of
                             Inl e \<Rightarrow>
                               (Some (Errorf ''Could not unmarshal data returned from KDC'' e), cl1)
                           | Inr krberr \<Rightarrow>
                               if ErrorCode krberr = KDC_ERR_PREAUTH_REQUIRED
                               then (case ASExchange_preauth V cl1 a of
                                       (Some e, cl2) \<Rightarrow> (Some e, cl2)
                                     | (None, cl2) \<Rightarrow> (Some (KDCError krberr), cl2))
                               else (Some (KDCError krberr), cl1))
                      | Inr ar \<Rightarrow>
                          (case ASRep_DecryptEncPart V (Credentials cl1) ar of
                             Inl e \<Rightarrow> (Some (Errorf ''Error decrypting EncPart of AS_REP'' e), cl1)
                           | Inr ar1 \<Rightarrow>
                               (case ASRep_IsValid V (Config cl1) a ar1 of
                                  (ok, e) \<Rightarrow>
                                    if \<not> ok then (Some (Errorf ''AS_REP is not valid'' e), cl1)
                                    else (None, cl1\<lparr>Session := Some
                                           \<lparr>AuthTime = Enc_AuthTime (DecryptedEncPart ar1),
                                            EndTime = Enc_EndTime (DecryptedEncPart ar1),
                                            RenewTill = Enc_RenewTill (DecryptedEncPart ar1),
                                            TGT = Rep_Ticket ar1,
                                            SessionKey = Key (DecryptedEncPart ar1),
                                            SessionKeyExpiration = KeyExpiration (DecryptedEncPart ar1)\<rparr>\<rparr>)))))))"

definition Login :: "env \<Rightarrow> Client \<Rightarrow> error option \<times> Client" where
  "Login V cl = ASExchange V cl"

subsection \<open>TGS exchange\<close>

text \<open>
  \<open>TGSExchange\<close> returns the request and the reply together with the error; the values
  that accompany an error are not read by the callers in the sources and are left out.
\<close>

definition TGSExchange ::
  "env \<Rightarrow> Client \<Rightarrow> PrincipalName \<Rightarrow> bool \<Rightarrow> (error + (TGSReq \<times> TGSRep)) \<times> Client" where
  "TGSExchange V cl spn renewal =
     (case Session cl of
        None \<Rightarrow>
          (Inl (ErrorsNew ''Error client does not have a session. Client needs to login first''), cl)
      | Some sess \<Rightarrow>
          (case NewTGSReq V (Username (Credentials cl)) (Config cl) (TGT sess) (SessionKey sess)
                  spn renewal of
             Inl e \<Rightarrow> (Inl (Errorf ''Error generating New TGS_REQ'' e), cl)
           | Inr tgsReq \<Rightarrow>
               (case TGSReq_Marshal V tgsReq of
                  Inl e \<Rightarrow> (Inl (Errorf ''Error marshalling TGS_REQ'' e), cl)
                | Inr b \<Rightarrow>
                    (case SendToKDC V cl b of
                       (Inl e, cl1) \<Rightarrow> (Inl (Errorf ''Error sending TGS_REQ to KDC'' e), cl1)
                     | (Inr r, cl1) \<Rightarrow>
                         (case TGSRep_Unmarshal V r of
                            Inl e \<Rightarrow> (Inl (Errorf ''Error unmarshalling TGS_REP'' e), cl1)
                          | Inr tgsRep \<Rightarrow>
                              (case TGSRep_DecryptEncPart V (SessionKey sess) tgsRep of
                                 Inl e \<Rightarrow>
                                   (Inl (Errorf ''Error decrypting EncPart of TGS_REP'' e), cl1)
                               | Inr tgsRep1 \<Rightarrow>
                                   (case TGSRep_IsValid V (Config cl1) tgsReq tgsRep1 of
                                      (ok, e) \<Rightarrow>
                                        if \<not> ok then (Inl (Errorf ''TGS_REP is not valid'' e), cl1)
                                        else (Inr (tgsReq, tgsRep1), cl1))))))))"

text \<open>\<open>strings.Split(spn, "/")\<close>: the parts of \<open>spn\<close> between the slashes.\<close>

fun split_slash :: "string \<Rightarrow> string \<Rightarrow> string list" where
  "split_slash acc [] = [acc]"
| "split_slash acc (c # cs) =
     (if c = CHR ''/'' then acc # split_slash [] cs else split_slash (acc @ [c]) cs)"

text \<open>
  Modelled from the spec: the constants of package iana/nametype are not in the sources;
  the spec gives KRB-NT-PRINCIPAL = 1.
\<close>

definition KRB_NT_PRINCIPAL :: int where
  "KRB_NT_PRINCIPAL = 1"

definition GetServiceTicket :: "env \<Rightarrow> Client \<Rightarrow> string \<Rightarrow> error option \<times> Client" where
  "GetServiceTicket V cl spn =
     (let s = split_slash [] spn;
          princ = \<lparr>NameType = KRB_NT_PRINCIPAL, NameString = s\<rparr>
      in case TGSExchange V cl princ False of
           (Inl e, cl1) \<Rightarrow> (Some e, cl1)
         | (Inr (tgsReq, tgsRep), cl1) \<Rightarrow>
             (None, cl1\<lparr>Cache := AddEntry (Cache cl1) (Rep_Ticket tgsRep)
                                  (Enc_AuthTime (DecryptedEncPart tgsRep))
                                  (Enc_EndTime (DecryptedEncPart tgsRep))
                                  (Enc_RenewTill (DecryptedEncPart tgsRep))\<rparr>))"

section \<open>A small instance of the parameters\<close>

text \<open>
  The theorems below hold for every encryption type. To evaluate the functions on
  concrete inputs, an encryption type with the shape of the AES types (96-bit MAC,
  16-byte confounder, 20-byte hash, a key of the declared size) and byte-wise
  arithmetic in place of AES and SHA-1: encryption adds the sum of the key bytes to each
  byte, key derivation adds the sum of the constant plus one to each key byte, the MAC
  repeats the sum of key and message.
\<close>

definition bytes_of_string :: "string \<Rightarrow> bytes" where
  "bytes_of_string s = map (\<lambda>c. of_nat (of_char c)) s"

definition demo_etype :: "int \<Rightarrow> nat \<Rightarrow> EType" where
  "demo_etype i ks =
     \<lparr>GetETypeID = i,
      GetKeyByteSize = int ks,
      GetDefaultStringToKeyParams = ''00001000'',
      StringToKey = (\<lambda>p s k. Inr (take ks (bytes_of_string (p @ s @ k) @ replicate ks 0))),
      GetHMACBitLength = 96,
      Encrypt = (\<lambda>k m. Inr ([], map (\<lambda>b. b + sum_list k) m)),
      Decrypt = (\<lambda>k c. Inr (map (\<lambda>b. b - sum_list k) c)),
      GetConfounderByteSize = 16,
      DeriveKey = (\<lambda>k u. Inr (map (\<lambda>b. b + sum_list u + 1) k)),
      HMAC = (\<lambda>k m. replicate 20 (sum_list k + sum_list m))\<rparr>"

definition demo_registry :: registry where
  "demo_registry =
     \<lparr>Aes128CtsHmacSha96 = demo_etype 17 16, Aes256CtsHmacSha96 = demo_etype 18 32\<rparr>"

definition demo_codec :: types_codec where
  "demo_codec =
     \<lparr>ETypeInfo_Unmarshal = (\<lambda>b. case b of
          [] \<Rightarrow> Inl (External ''asn1'')
        | t # s \<Rightarrow> Inr [\<lparr>EType_i = uint t, Salt_i = s\<rparr>]),
      ETypeInfo2_Unmarshal = (\<lambda>b. case b of
          [] \<Rightarrow> Inl (External ''asn1'')
        | t # s \<Rightarrow> Inr [\<lparr>EType_i2 = uint t, Salt_i2 = string_of_bytes s, S2KParams = []\<rparr>])\<rparr>"

text \<open>
  The same encryption type with the length rule of ciphertext stealing: encryption and
  decryption refuse an input shorter than one block of 16 bytes.
\<close>

definition demo_cts_etype :: "int \<Rightarrow> nat \<Rightarrow> EType" where
  "demo_cts_etype i ks =
     (demo_etype i ks)
       \<lparr>Encrypt := (\<lambda>k m. if length m < 16 then Inl (External ''short message'')
                           else Encrypt (demo_etype i ks) k m),
        Decrypt := (\<lambda>k c. if length c < 16 then Inl (External ''short ciphertext'')
                           else Decrypt (demo_etype i ks) k c)\<rparr>"

definition demo_key :: EncryptionKey where
  "demo_key = \<lparr>KeyType = 17, KeyValue = replicate 16 1\<rparr>"

definition demo_rnd :: "nat \<Rightarrow> error + bytes" where
  "demo_rnd n = Inr (replicate n 7)"

definition demo_pt :: bytes where
  "demo_pt = [1, 2, 3]"

text \<open>
  A client and its collaborators. The requests are the user name (or the service name)
  followed by the values of the PA-DATA entries; the KDC answers the first request with
  the two bytes \<open>[30, 25]\<close>, which decode as a KRB-ERROR with error code 25, and every
  later request with \<open>[11]\<close>, which decodes as the AS-REP \<open>demo_rep\<close>; every AS-REP
  decrypts and is valid. In \<open>demo_tgs_env\<close> the KDC answers with \<open>[13]\<close>, which decodes
  as a TGS-REP.
\<close>

definition demo_ticket :: Ticket where
  "demo_ticket =
     \<lparr>TktVNO = 5, Realm = ''EXAMPLE.COM'',
      SName = \<lparr>NameType = 2, NameString = [''krbtgt'', ''EXAMPLE.COM'']\<rparr>,
      EncPart = \<lparr>EType = 18, KVNO = 1, Cipher = []\<rparr>\<rparr>"

definition demo_rep :: KDCRep where
  "demo_rep =
     \<lparr>Rep_Ticket = demo_ticket,
      DecryptedEncPart = \<lparr>Key = demo_key, Enc_AuthTime = 100, Enc_EndTime = 200,
                          Enc_RenewTill = 300, KeyExpiration = 400\<rparr>\<rparr>"

definition demo_service_ticket :: Ticket where
  "demo_service_ticket =
     \<lparr>TktVNO = 5, Realm = ''EXAMPLE.COM'',
      SName = \<lparr>NameType = 1, NameString = [''HTTP'', ''www.example.com'']\<rparr>,
      EncPart = \<lparr>EType = 18, KVNO = 1, Cipher = []\<rparr>\<rparr>"

definition demo_tgsrep :: KDCRep where
  "demo_tgsrep =
     \<lparr>Rep_Ticket = demo_service_ticket,
      DecryptedEncPart = \<lparr>Key = demo_key, Enc_AuthTime = 100, Enc_EndTime = 250,
                          Enc_RenewTill = 300, KeyExpiration = 400\<rparr>\<rparr>"

definition demo_env :: env where
  "demo_env =
     \<lparr>Registry = demo_registry,
      Rand = demo_rnd,
      IsConfigured = (\<lambda>c g. True),
      NewASReq = (\<lambda>g u. \<lparr>PAData = [], ReqBody = bytes_of_string u\<rparr>),
      ASReq_Marshal = (\<lambda>a. Inr (ReqBody a @ concat (map PADataValue (PAData a)))),
      KDC = (\<lambda>sent b. if sent = [] then Inr [30, 25] else Inr [11]),
      ASRep_Unmarshal = (\<lambda>rb. if rb = [11] then Inr demo_rep else Inl (External ''asn1'')),
      KRBError_Unmarshal = (\<lambda>rb. case rb of
          [t, c] \<Rightarrow> if t = 30 then Inr \<lparr>ErrorCode = uint c, EData = []\<rparr>
                    else Inl (External ''asn1'')
        | _ \<Rightarrow> Inl (External ''asn1'')),
      GetPAEncTSEncAsnMarshalled = Inr demo_pt,
      GetEncryptionKey = (\<lambda>kt u r kvno et. (\<lparr>KeyType = et, KeyValue = kt\<rparr>, None)),
      ASRep_DecryptEncPart = (\<lambda>c ar. Inr ar),
      ASRep_IsValid = (\<lambda>g a ar. (True, External ''nil'')),
      NewTGSReq = (\<lambda>u g t k spn r.
          Inr \<lparr>TGS_PAData = [], TGS_ReqBody = bytes_of_string (concat (NameString spn))\<rparr>),
      TGSReq_Marshal = (\<lambda>q. Inr (TGS_ReqBody q)),
      TGSRep_Unmarshal = (\<lambda>rb. if rb = [13] then Inr demo_tgsrep else Inl (External ''asn1'')),
      TGSRep_DecryptEncPart = (\<lambda>k r. Inr r),
      TGSRep_IsValid = (\<lambda>g q r. (True, External ''nil''))\<rparr>"

definition demo_tgs_env :: env where
  "demo_tgs_env = demo_env\<lparr>KDC := (\<lambda>sent b. Inr [13])\<rparr>"

definition demo_client :: Client where
  "demo_client =
     \<lparr>Credentials = \<lparr>Username = ''user'', Keytab = replicate 16 1\<rparr>,
      Config = \<lparr>LibDefaults = \<lparr>Default_tkt_enctype_ids = [17], Default_realm = ''EXAMPLE.COM''\<rparr>\<rparr>,
      Session = None,
      Cache = Map.empty,
      Sent = []\<rparr>"

definition demo_session :: Session where
  "demo_session =
     \<lparr>AuthTime = 100, EndTime = 200, RenewTill = 300, TGT = demo_ticket,
      SessionKey = demo_key, SessionKeyExpiration = 400\<rparr>"

definition demo_messages_codec :: messages_codec where
  "demo_messages_codec =
     \<lparr>asn1_UnmarshalWithParams = (\<lambda>b tag. case b of
          [] \<Rightarrow> Inl (External ''asn1'')
        | t # rest \<Rightarrow>
            Inr \<lparr>PVNO_m = 5, MsgType_m = uint t,
                 APOptions_m = \<lparr>BitBytes = [0, 0, 0, 0], BitLength = 32\<rparr>,
                 Ticket_m = \<lparr>Class = 2, Tag = 3, IsCompound = True, Bytes = rest\<rparr>,
                 Authenticator_m = \<lparr>EType = 17, KVNO = 0, Cipher = [9]\<rparr>\<rparr>),
      UnmarshalTicket = (\<lambda>b. if b = [] then (demo_ticket, Some (External ''asn1''))
                              else (demo_service_ticket, None))\<rparr>"

definition demo_apreq :: APReq where
  "demo_apreq =
     \<lparr>PVNO = 0, MsgType = 0, APOptions = \<lparr>BitBytes = [], BitLength = 0\<rparr>,
      Ticket = demo_ticket, Authenticator = \<lparr>EType = 0, KVNO = 0, Cipher = []\<rparr>\<rparr>"

section \<open>Properties\<close>

subsection \<open>Auxiliary facts\<close>

lemma sdiv_96_8: "(96::int) sdiv 8 = 12"
  by (simp add: signed_divide_int_def)

lemma copy_into_full: "length src = length dst \<Longrightarrow> copy_into dst src = src"
  by (simp add: copy_into_def)

lemma GetSalt_concat: "GetSalt pn realm = realm @ concat (NameString pn)"
proof -
  have "foldl (\<lambda>sb n. sb @ n) acc ns = acc @ concat ns" for acc :: string and ns
    by (induction ns arbitrary: acc) simp_all
  then show ?thesis by (simp add: GetSalt_def)
qed

lemma demo_GetEtype17: "GetEtype demo_registry 17 = Inr (demo_etype 17 16)"
  by (simp add: GetEtype_def demo_registry_def AES128_CTS_HMAC_SHA1_96_def)

lemma demo_GetEtype18: "GetEtype demo_registry 18 = Inr (demo_etype 18 32)"
  by (simp add: GetEtype_def demo_registry_def AES128_CTS_HMAC_SHA1_96_def
      AES256_CTS_HMAC_SHA1_96_def)

lemmas demo_simps = demo_etype_def demo_key_def demo_rnd_def demo_pt_def
  GetUsageKe_def GetUsageKi_def getUsage_def sum_list_replicate

lemmas patype_simps = PA_PW_SALT_def PA_ETYPE_INFO_def PA_ETYPE_INFO2_def PA_ENC_TIMESTAMP_def

lemma string_of_bytes_A: "string_of_bytes [0x41] = ''A''"
  by code_simp

lemma string_of_bytes_B: "string_of_bytes [0x42] = ''B''"
  by code_simp

lemma bytes_user: "bytes_of_string ''user'' = [117, 115, 101, 114]"
  by (simp add: bytes_of_string_def)



lemmas demo_cts_simps = demo_cts_etype_def demo_simps

subsection \<open>Integrity hash, encryption and decryption\<close>

lemma getHash_ok:
  assumes "DeriveKey E key u = Inr k" "GetHMACBitLength E = 96" "12 \<le> length (HMAC E k pt)"
  shows "getHash pt key u E = Inr (take 12 (HMAC E k pt))"
  using assms by (simp add: getHash_def copy_into_full slice_to_def sdiv_96_8)




text \<open>
  What \<open>GetEncryptedData\<close> returns for the usage 0, for every encryption type: the
  encryption under the key itself, followed by the truncated HMAC under the key derived
  with the constant \<open>00 00 00 00 55\<close>.
\<close>

lemma GetEncryptedData_usage0:
  assumes "GetEtype R (KeyType key) = Inr E" "GetHMACBitLength E = 96"
      and "DeriveKey E (KeyValue key) (GetUsageKi 0) = Inr ki"
      and "0 \<le> GetConfounderByteSize E" "rnd (nat (GetConfounderByteSize E)) = Inr c"
      and "length c = nat (GetConfounderByteSize E)"
      and "Encrypt E (KeyValue key) (c @ pt) = Inr (s, C)"
      and "12 \<le> length (HMAC E ki (c @ pt))"
  shows "GetEncryptedData R rnd pt key 0 kvno =
           Inr \<lparr>EType = KeyType key, KVNO = kvno, Cipher = C @ take 12 (HMAC E ki (c @ pt))\<rparr>"
  using assms
  by (simp add: GetEncryptedData_def make_bytes_def copy_into_full GetIntegrityHash_def getHash_ok)

lemma GetEncryptedData_usage0_direct:
  assumes "GetEncryptedData R rnd pt key 0 kvno = Inr ed"
  shows "\<exists>E c s C mac. GetEtype R (KeyType key) = Inr E
           \<and> int (length c) = GetConfounderByteSize E
           \<and> Encrypt E (KeyValue key) (c @ pt) = Inr (s, C) \<and> Cipher ed = C @ mac
           \<and> EType ed = KeyType key \<and> KVNO ed = kvno"
proof -
  obtain E where E: "GetEtype R (KeyType key) = Inr E"
    using assms by (auto simp: GetEncryptedData_def split: sum.splits)
  obtain c0 where c0: "make_bytes (GetConfounderByteSize E) = Inr c0"
    using assms E by (auto simp: GetEncryptedData_def split: sum.splits)
  obtain r where r: "rnd (length c0) = Inr r"
    using assms E c0 by (auto simp: GetEncryptedData_def split: sum.splits)
  obtain s C where enc: "Encrypt E (KeyValue key) (copy_into c0 r @ pt) = Inr (s, C)"
    using assms E c0 r by (auto simp: GetEncryptedData_def Let_def split: sum.splits)
  have len: "int (length (copy_into c0 r)) = GetConfounderByteSize E"
    using c0 by (auto simp: make_bytes_def copy_into_def split: if_splits)
  have "\<exists>mac. Cipher ed = C @ mac \<and> EType ed = KeyType key \<and> KVNO ed = kvno"
    using assms E c0 r enc
    by (auto simp: GetEncryptedData_def Let_def split: sum.splits if_splits)
  with E len enc show ?thesis by blast
qed

lemma demo_ed0:
  "GetEncryptedData demo_registry demo_rnd demo_pt demo_key 0 1 =
     Inr \<lparr>EType = 17, KVNO = 1, Cipher = replicate 16 23 @ [17, 18, 19] @ replicate 12 230\<rparr>"
  by (simp add: GetEncryptedData_def demo_GetEtype17 demo_simps make_bytes_def copy_into_def
      GetIntegrityHash_def getHash_def slice_to_def sdiv_96_8)

lemma demo_ed1:
  "GetEncryptedData demo_registry demo_rnd demo_pt demo_key 1 1 =
     Inr \<lparr>EType = 17, KVNO = 1, Cipher = replicate 16 215 @ [209, 210, 211] @ replicate 12 246\<rparr>"
  by (simp add: GetEncryptedData_def demo_GetEtype17 demo_simps make_bytes_def copy_into_def
      GetIntegrityHash_def getHash_def slice_to_def sdiv_96_8)

text \<open>
  C3. In \<open>GetEncryptedData\<close>, the usage 0 is said to use the provided key directly,
  without derivation, both as the encryption key Ke and as the integrity key Ki. The
  function does so for Ke only: with the key of sixteen bytes 1, the plaintext
  \<open>[1, 2, 3]\<close> and the usage 0, the key handed to the HMAC is
  \<open>DeriveKey key (00 00 00 00 55)\<close>, sixteen bytes 87, and the MAC it appends is not the
  MAC under the key itself.
\<close>

theorem GetEncryptedData_usage0_Ki:
  "DeriveKey (demo_etype 17 16) (KeyValue demo_key) (GetUsageKi 0) = Inr (replicate 16 87)
   \<and> GetEncryptedData demo_registry demo_rnd demo_pt demo_key 0 1 =
       Inr \<lparr>EType = 17, KVNO = 1,
            Cipher = snd (projr (Encrypt (demo_etype 17 16) (KeyValue demo_key) (replicate 16 7 @ demo_pt)))
                     @ take 12 (HMAC (demo_etype 17 16) (replicate 16 87) (replicate 16 7 @ demo_pt))\<rparr>
   \<and> take 12 (HMAC (demo_etype 17 16) (replicate 16 87) (replicate 16 7 @ demo_pt))
       \<noteq> take 12 (HMAC (demo_etype 17 16) (KeyValue demo_key) (replicate 16 7 @ demo_pt))"
  by (simp add: GetEncryptedData_def demo_GetEtype17 demo_simps make_bytes_def copy_into_def
      GetIntegrityHash_def getHash_def slice_to_def sdiv_96_8)




text \<open>
  C10. \<open>DecryptEncPart\<close> slices in range for every \<open>EncryptedData\<close> whose cipher is at
  least 12 bytes long, and it does not check this bound: a cipher shorter than 12 bytes is
  not rejected through the error result. Once the key is derived the call panics at the
  first slice; when the key derivation fails, the error is the one of the key derivation,
  whatever the cipher.

  The encryption type is a parameter, with the contract of the spec: a 96-bit MAC, a hash
  of at least 12 bytes, and a decryption that preserves the length and refuses a body
  shorter than the confounder, so that the text left after the integrity check is long
  enough for the confounder to be stripped.
\<close>

theorem DecryptEncPart_slicing:
  assumes h: "GetHMACBitLength E = 96"
      and hm: "\<forall>k m. 12 \<le> length (HMAC E k m)"
      and cf: "0 \<le> GetConfounderByteSize E"
      and dec: "\<forall>k c b. Decrypt E k c = Inr b \<longrightarrow>
                  length b = length c \<and> GetConfounderByteSize E \<le> int (length c)"
  shows "(12 \<le> length (Cipher pe) \<longrightarrow> DecryptEncPart key pe E u \<noteq> Inl RuntimePanic)
       \<and> (length (Cipher pe) < 12 \<longrightarrow>
            DecryptEncPart key pe E u =
              (case DeriveKey E key (GetUsageKe u) of
                 Inl e \<Rightarrow> Inl (Errorf ''Error deriving key'' e)
               | Inr k \<Rightarrow> Inl RuntimePanic))"
proof (intro conjI impI)
  assume a: "12 \<le> length (Cipher pe)"
  have gh: "getHash pt key cu E \<noteq> Inl RuntimePanic" for pt cu
    using hm h by (simp add: getHash_def slice_to_def sdiv_96_8 copy_into_full split: sum.splits)
  have vi: "VerifyIntegrity key (Cipher pe) pt u E \<noteq> Inl RuntimePanic" for pt
    using a h gh [of pt "GetUsageKi u"]
    by (auto simp: VerifyIntegrity_def make_bytes_def slice_from_def sdiv_96_8 GetIntegrityHash_def
        Let_def split: sum.splits if_splits)
  have strip: "slice_from b (GetConfounderByteSize E) \<noteq> Inl RuntimePanic"
    if "Decrypt E k c = Inr b" for k c b
    using dec that cf by (auto simp: slice_from_def)
  show "DecryptEncPart key pe E u \<noteq> Inl RuntimePanic"
    using a h vi strip
    by (auto simp: DecryptEncPart_def slice_to_def sdiv_96_8 EType_VerifyIntegrity_def
        split: sum.splits)
next
  assume "length (Cipher pe) < 12"
  then show "DecryptEncPart key pe E u =
              (case DeriveKey E key (GetUsageKe u) of
                 Inl e \<Rightarrow> Inl (Errorf ''Error deriving key'' e)
               | Inr k \<Rightarrow> Inl RuntimePanic)"
    using h by (simp add: DecryptEncPart_def slice_to_def sdiv_96_8 split: sum.splits)
qed

text \<open>
  A cipher of 31 bytes, a cipher of 12 bytes (an empty body, which the decryption
  refuses with an error) and a cipher of 11 bytes.
\<close>

theorem DecryptEncPart_slicing_witness:
  "GetHMACBitLength (demo_cts_etype 17 16) = 96
   \<and> (\<forall>k m. 12 \<le> length (HMAC (demo_cts_etype 17 16) k m))
   \<and> 0 \<le> GetConfounderByteSize (demo_cts_etype 17 16)
   \<and> Decrypt (demo_cts_etype 17 16) (replicate 16 173) [] = Inl (External ''short ciphertext'')
   \<and> DecryptEncPart (KeyValue demo_key)
        \<lparr>EType = 17, KVNO = 1, Cipher = replicate 16 215 @ [209, 210, 211] @ replicate 12 246\<rparr>
        (demo_cts_etype 17 16) 1 \<noteq> Inl RuntimePanic
   \<and> DecryptEncPart (KeyValue demo_key) \<lparr>EType = 17, KVNO = 1, Cipher = replicate 12 160\<rparr>
        (demo_cts_etype 17 16) 3 \<noteq> Inl RuntimePanic
   \<and> DeriveKey (demo_cts_etype 17 16) (KeyValue demo_key) (GetUsageKe 1) = Inr (replicate 16 173)
   \<and> DecryptEncPart (KeyValue demo_key) \<lparr>EType = 17, KVNO = 1, Cipher = replicate 11 5\<rparr>
        (demo_cts_etype 17 16) 1 = Inl RuntimePanic"
proof -
  let ?E = "demo_cts_etype 17 16"
  let ?pe = "\<lparr>EType = 17, KVNO = 1, Cipher = replicate 16 215 @ [209, 210, 211] @ replicate 12 246\<rparr>"
  let ?mac = "\<lparr>EType = 17, KVNO = 1, Cipher = replicate 12 (160::byte)\<rparr>"
  let ?short = "\<lparr>EType = 17, KVNO = 1, Cipher = replicate 11 (5::byte)\<rparr>"
  have h: "GetHMACBitLength ?E = 96" by (simp add: demo_cts_simps)
  have hm: "\<forall>k m. 12 \<le> length (HMAC ?E k m)" by (simp add: demo_cts_simps)
  have cf: "0 \<le> GetConfounderByteSize ?E" by (simp add: demo_cts_simps)
  have dec: "\<forall>k c b. Decrypt ?E k c = Inr b \<longrightarrow>
                  length b = length c \<and> GetConfounderByteSize ?E \<le> int (length c)"
    by (auto simp: demo_cts_simps split: if_splits)
  have refuses: "Decrypt ?E (replicate 16 173) [] = Inl (External ''short ciphertext'')"
    by (simp add: demo_cts_simps)
  have dk: "DeriveKey ?E (KeyValue demo_key) (GetUsageKe 1) = Inr (replicate 16 173)"
    by (simp add: demo_cts_simps)
  have l1: "12 \<le> length (Cipher ?pe)" by simp
  have l2: "12 \<le> length (Cipher ?mac)" by simp
  have l3: "length (Cipher ?short) < 12" by simp
  show ?thesis
    using DecryptEncPart_slicing [OF h hm cf dec, of ?pe "KeyValue demo_key" 1] l1
      DecryptEncPart_slicing [OF h hm cf dec, of ?mac "KeyValue demo_key" 3] l2
      DecryptEncPart_slicing [OF h hm cf dec, of ?short "KeyValue demo_key" 1] l3
      h hm cf refuses dk
    by simp
qed

subsection \<open>Key from password\<close>

text \<open>
  C7. In \<open>GetKeyFromPassword\<close>, when the salt is still empty after the loop over the
  PA-DATA entries, the salt passed to string-to-key is the realm followed by the
  components of the principal name in order, with no separator; for the components
  \<open>["user"]\<close> and the realm \<open>EXAMPLE.COM\<close> it is \<open>EXAMPLE.COMuser\<close>.
\<close>

theorem GetKeyFromPassword_default_salt:
  assumes "GetEtype R etypeId = Inr E"
      and "pa_loop R D etypeId pas
             \<lparr>etype = E, sk2p = GetDefaultStringToKeyParams E, salt = [], paID = 0\<rparr> = Inr st"
      and "salt st = []"
  shows "GetKeyFromPassword R D passwd cn realm etypeId pas =
           (case StringToKey (etype st) passwd (realm @ concat (NameString cn)) (sk2p st) of
              Inl e \<Rightarrow> Inl (Errorf ''Error deriving key from string'' e)
            | Inr k \<Rightarrow> Inr (\<lparr>KeyType = etypeId, KeyValue = k\<rparr>, etype st))
         \<and> GetSalt \<lparr>NameType = nt, NameString = [''user'']\<rparr> ''EXAMPLE.COM'' = ''EXAMPLE.COMuser''"
  using assms by (simp add: GetKeyFromPassword_def GetSalt_concat)

theorem GetKeyFromPassword_default_salt_witness:
  "GetEtype demo_registry 17 = Inr (demo_etype 17 16)
   \<and> pa_loop demo_registry demo_codec 17 []
        \<lparr>etype = demo_etype 17 16, sk2p = GetDefaultStringToKeyParams (demo_etype 17 16),
         salt = [], paID = 0\<rparr>
      = Inr \<lparr>etype = demo_etype 17 16, sk2p = GetDefaultStringToKeyParams (demo_etype 17 16),
         salt = [], paID = 0\<rparr>
   \<and> GetKeyFromPassword demo_registry demo_codec ''pw''
        \<lparr>NameType = 1, NameString = [''user'']\<rparr> ''EXAMPLE.COM'' 17 [] =
       (case StringToKey (demo_etype 17 16) ''pw'' ''EXAMPLE.COMuser'' ''00001000'' of
          Inl e \<Rightarrow> Inl (Errorf ''Error deriving key from string'' e)
        | Inr k \<Rightarrow> Inr (\<lparr>KeyType = 17, KeyValue = k\<rparr>, demo_etype 17 16))"
  using GetKeyFromPassword_default_salt [OF demo_GetEtype17, of demo_codec "[]" _ "''pw''"
      "\<lparr>NameType = 1, NameString = [''user'']\<rparr>" "''EXAMPLE.COM''" 1]
  by (simp add: demo_etype_def demo_GetEtype17)

text \<open>
  The loop over the PA-DATA entries compares the type of each entry with \<open>paID\<close> and
  never assigns \<open>paID\<close>: it is 0 at the end as at the start.
\<close>

lemma pa_step_paID: "pa_step R D i pa st = Inr st' \<Longrightarrow> paID st' = paID st"
  by (auto simp: pa_step_def Let_def split: if_splits sum.splits list.splits)

lemma pa_loop_paID: "pa_loop R D i pas st = Inr st' \<Longrightarrow> paID st' = paID st"
proof (induction pas arbitrary: st)
  case Nil
  then show ?case by simp
next
  case (Cons pa pas)
  then show ?case by (auto split: sum.splits dest: pa_step_paID)
qed

text \<open>
  C4. An entry of the PA-DATA sequence is said to be applied only if its type is at least
  the largest type applied so far, so that a PA-PW-SALT entry after a PA-ETYPE-INFO2 entry
  does not override the salt. In the function the largest type stays 0 and every entry
  is applied: for the sequence PA-ETYPE-INFO2 with salt \<open>A\<close>, then PA-PW-SALT with salt
  \<open>B\<close>, the loop ends with the salt \<open>B\<close> and \<open>paID = 0\<close>, and the key is the one that
  string-to-key gives for the salt \<open>B\<close>.
\<close>

theorem GetKeyFromPassword_later_salt_overrides:
  "map_sum id (\<lambda>st. (salt st, paID st))
     (pa_loop demo_registry demo_codec 17
        [\<lparr>PADataType = PA_ETYPE_INFO2, PADataValue = [17, 0x41]\<rparr>,
         \<lparr>PADataType = PA_PW_SALT, PADataValue = [0x42]\<rparr>]
        \<lparr>etype = demo_etype 17 16, sk2p = ''00001000'', salt = [], paID = 0\<rparr>)
     = Inr (''B'', 0)
   \<and> map_sum id fst
       (GetKeyFromPassword demo_registry demo_codec ''pw''
          \<lparr>NameType = 1, NameString = [''user'']\<rparr> ''EXAMPLE.COM'' 17
          [\<lparr>PADataType = PA_ETYPE_INFO2, PADataValue = [17, 0x41]\<rparr>,
           \<lparr>PADataType = PA_PW_SALT, PADataValue = [0x42]\<rparr>])
     = map_sum id (\<lambda>k. \<lparr>KeyType = 17, KeyValue = k\<rparr>)
         (StringToKey (demo_etype 17 16) ''pw'' ''B'' ''00001000'')"
  by (simp add: GetKeyFromPassword_def demo_GetEtype17 pa_step_def patype_simps demo_codec_def
      string_of_bytes_A string_of_bytes_B demo_etype_def)

text \<open>
  C5. Every key that \<open>GetKeyFromPassword\<close> returns is said to have a value as long as
  the key size of the encryption type that its type field names, also when a
  PA-ETYPE-INFO2 entry switches the encryption type. For the requested type 17 (key size
  16) and a PA-ETYPE-INFO2 entry naming the type 18 (key size 32), the key returned has
  the type field 17 and a value of 32 bytes.
\<close>

theorem GetKeyFromPassword_key_type_mismatch:
  "(case GetKeyFromPassword demo_registry demo_codec ''pw''
           \<lparr>NameType = 1, NameString = [''user'']\<rparr> ''EXAMPLE.COM'' 17
           [\<lparr>PADataType = PA_ETYPE_INFO2, PADataValue = [18, 0x41]\<rparr>] of
      Inl e \<Rightarrow> False
    | Inr (key, E) \<Rightarrow>
        KeyType key = 17 \<and> GetETypeID E = 18 \<and> GetKeyByteSize E = 32
        \<and> length (KeyValue key) = 32 \<and> \<not> I1 demo_registry key)"
  by (simp add: GetKeyFromPassword_def demo_GetEtype17 demo_GetEtype18 pa_step_def patype_simps
      demo_codec_def string_of_bytes_A demo_etype_def I1_def bytes_of_string_def)

subsection \<open>AS exchange\<close>

lemma demo_ASExchange:
  "ASExchange demo_env demo_client =
     (Some (KDCError \<lparr>ErrorCode = 25, EData = []\<rparr>),
      demo_client\<lparr>Sent := [bytes_of_string ''user'',
                              bytes_of_string ''user'' @ replicate 16 23 @ [17, 18, 19] @ replicate 12 230]\<rparr>)"
  using demo_ed0
  by (simp add: ASExchange_def ASExchange_preauth_def SendToKDC_def demo_env_def demo_client_def
      demo_GetEtype17 KDC_ERR_PREAUTH_REQUIRED_def demo_key_def demo_etype_def
      PA_ENC_TIMESTAMP_def)

text \<open>
  When the first reply does not decode as an AS-REP, \<open>ASExchange\<close> returns an error
  and leaves the session as it was, whatever the second reply is.
\<close>

lemma ASExchange_preauth_Session: "Session (snd (ASExchange_preauth V cl a)) = Session cl"
  by (simp add: ASExchange_preauth_def SendToKDC_def Let_def
      split: sum.splits list.splits prod.splits)

lemma ASExchange_first_reply_error:
  assumes "IsConfigured V (Credentials cl) (Config cl)"
      and "ASReq_Marshal V (NewASReq V (Config cl) (Username (Credentials cl))) = Inr b"
      and "KDC V (Sent cl) b = Inr rb" and "ASRep_Unmarshal V rb = Inl e0"
  shows "fst (ASExchange V cl) \<noteq> None \<and> Session (snd (ASExchange V cl)) = Session cl"
proof -
  have "Session cl2 = Session cl"
    if "ASExchange_preauth V (cl\<lparr>Sent := Sent cl @ [b]\<rparr>) a = (r, cl2)" for a r cl2
    using ASExchange_preauth_Session [of V "cl\<lparr>Sent := Sent cl @ [b]\<rparr>" a] that by simp
  then show ?thesis
    using assms
    by (auto simp: ASExchange_def SendToKDC_def Let_def split: sum.splits prod.splits option.splits)
qed

text \<open>
  C1. After a KRB-ERROR with the code 25 and a second reply that is a valid AS-REP,
  \<open>ASExchange\<close> is said to decrypt and validate the reply, to populate the session and
  to return no error. With a KDC that answers the first request with the KRB-ERROR 25 and
  the second with an AS-REP that decodes, decrypts and is valid, the function sends both
  requests, returns the KRB-ERROR as its error and leaves the session nil.
\<close>

theorem ASExchange_preauth_retry_returns_error:
  "ASExchange demo_env demo_client =
     (Some (KDCError \<lparr>ErrorCode = 25, EData = []\<rparr>),
      demo_client\<lparr>Sent := [bytes_of_string ''user'',
                              bytes_of_string ''user'' @ replicate 16 23 @ [17, 18, 19] @ replicate 12 230]\<rparr>)
   \<and> KDC demo_env [bytes_of_string ''user'']
         (bytes_of_string ''user'' @ replicate 16 23 @ [17, 18, 19] @ replicate 12 230) = Inr [11]
   \<and> ASRep_Unmarshal demo_env [11] = Inr demo_rep
   \<and> ASRep_DecryptEncPart demo_env (Credentials demo_client) demo_rep = Inr demo_rep
   \<and> fst (ASRep_IsValid demo_env (Config demo_client)
             (NewASReq demo_env (Config demo_client) (Username (Credentials demo_client))) demo_rep)
   \<and> Session (snd (ASExchange demo_env demo_client)) = None"
proof -
  let ?b2 = "bytes_of_string ''user'' @ replicate 16 23 @ [17, 18, 19] @ replicate 12 230"
  have second: "KDC demo_env [bytes_of_string ''user''] ?b2 = Inr [11]"
    by (simp add: demo_env_def)
  have asrep: "ASRep_Unmarshal demo_env [11] = Inr demo_rep"
    by (simp add: demo_env_def)
  have decrypts: "ASRep_DecryptEncPart demo_env (Credentials demo_client) demo_rep = Inr demo_rep"
    by (simp add: demo_env_def)
  have valid: "fst (ASRep_IsValid demo_env (Config demo_client)
             (NewASReq demo_env (Config demo_client) (Username (Credentials demo_client))) demo_rep)"
    by (simp add: demo_env_def)
  have nil: "Session (demo_client\<lparr>Sent := [bytes_of_string ''user'', ?b2]\<rparr>) = None"
    by (simp add: demo_client_def)
  show ?thesis
    using second asrep decrypts valid nil by (simp add: demo_ASExchange)
qed

text \<open>
  The request that is sent again carries the cipher that \<open>GetEncryptedData\<close> gives for
  the usage 0, not the one it gives for the usage 1.
\<close>

theorem ASExchange_preauth_usage_counterexample:
  "GetEncryptedData demo_registry demo_rnd demo_pt demo_key 1 1 =
     Inr \<lparr>EType = 17, KVNO = 1, Cipher = replicate 16 215 @ [209, 210, 211] @ replicate 12 246\<rparr>
   \<and> Sent (snd (ASExchange demo_env demo_client)) =
       [bytes_of_string ''user'',
        bytes_of_string ''user'' @ replicate 16 23 @ [17, 18, 19] @ replicate 12 230]
   \<and> last (Sent (snd (ASExchange demo_env demo_client)))
       \<noteq> bytes_of_string ''user'' @ replicate 16 215 @ [209, 210, 211] @ replicate 12 246"
  by (simp add: demo_ASExchange demo_ed1)

text \<open>
  C2, amended. When building the preauth retry, the marshalled PA-ENC-TS-ENC timestamp is
  encrypted with the long-term keytab key passing usage = 0 and kvno = 1 to
  \<open>GetEncryptedData\<close>, so that the key is used directly as the encryption key Ke; the
  cipher is the value of the PA-ENC-TIMESTAMP entry appended to the request that is sent
  again.
\<close>

theorem ASExchange_preauth_usage:
  assumes cfg: "IsConfigured V (Credentials cl) (Config cl)"
      and a: "a = NewASReq V (Config cl) (Username (Credentials cl))"
      and b: "ASReq_Marshal V a = Inr b"
      and rb: "KDC V (Sent cl) b = Inr rb"
      and nr: "ASRep_Unmarshal V rb = Inl e0"
      and ke: "KRBError_Unmarshal V rb = Inr krberr"
      and code: "ErrorCode krberr = KDC_ERR_PREAUTH_REQUIRED"
      and ts: "GetPAEncTSEncAsnMarshalled V = Inr paTSb"
      and ids: "rev (sort (Default_tkt_enctype_ids (LibDefaults (Config cl)))) = i0 # rest"
      and et: "GetEtype (Registry V) i0 = Inr et"
      and key: "key = fst (GetEncryptionKey V (Keytab (Credentials cl)) (Username (Credentials cl))
                             (Default_realm (LibDefaults (Config cl))) 1 (GetETypeID et))"
      and ed: "GetEncryptedData (Registry V) (Rand V) paTSb key 0 1 = Inr ed"
      and b': "ASReq_Marshal V
                 (a\<lparr>PAData := PAData a @ [\<lparr>PADataType = PA_ENC_TIMESTAMP, PADataValue = Cipher ed\<rparr>]\<rparr>)
               = Inr b'"
  shows "Sent (snd (ASExchange V cl)) = Sent cl @ [b, b']
         \<and> (\<exists>E c s C mac. GetEtype (Registry V) (KeyType key) = Inr E
               \<and> int (length c) = GetConfounderByteSize E
               \<and> Encrypt E (KeyValue key) (c @ paTSb) = Inr (s, C)
               \<and> Cipher ed = C @ mac \<and> KVNO ed = 1)"
proof
  show "Sent (snd (ASExchange V cl)) = Sent cl @ [b, b']"
    using cfg b rb nr ke code ts ids et ed b' unfolding a key
    by (simp add: ASExchange_def ASExchange_preauth_def SendToKDC_def Let_def
        split: sum.splits prod.splits option.splits)
next
  show "\<exists>E c s C mac. GetEtype (Registry V) (KeyType key) = Inr E
               \<and> int (length c) = GetConfounderByteSize E
               \<and> Encrypt E (KeyValue key) (c @ paTSb) = Inr (s, C)
               \<and> Cipher ed = C @ mac \<and> KVNO ed = 1"
    using GetEncryptedData_usage0_direct [OF ed] by blast
qed

text \<open>The client and the KDC of the small instance.\<close>

theorem ASExchange_preauth_usage_witness:
  "IsConfigured demo_env (Credentials demo_client) (Config demo_client)
   \<and> KDC demo_env (Sent demo_client) (bytes_of_string ''user'') = Inr [30, 25]
   \<and> KRBError_Unmarshal demo_env [30, 25] = Inr \<lparr>ErrorCode = 25, EData = []\<rparr>
   \<and> GetEncryptedData (Registry demo_env) (Rand demo_env) demo_pt demo_key 0 1 =
       Inr \<lparr>EType = 17, KVNO = 1, Cipher = replicate 16 23 @ [17, 18, 19] @ replicate 12 230\<rparr>
   \<and> Sent (snd (ASExchange demo_env demo_client)) =
       [bytes_of_string ''user'',
        bytes_of_string ''user'' @ replicate 16 23 @ [17, 18, 19] @ replicate 12 230]"
proof -
  let ?a = "NewASReq demo_env (Config demo_client) (Username (Credentials demo_client))"
  let ?ed = "\<lparr>EType = 17, KVNO = 1, Cipher = replicate 16 23 @ [17, 18, 19] @ replicate 12 230\<rparr>"
  let ?b' = "bytes_of_string ''user'' @ replicate 16 23 @ [17, 18, 19] @ replicate 12 230"
  have cfg: "IsConfigured demo_env (Credentials demo_client) (Config demo_client)"
    by (simp add: demo_env_def)
  have b: "ASReq_Marshal demo_env ?a = Inr (bytes_of_string ''user'')"
    by (simp add: demo_env_def demo_client_def)
  have rb: "KDC demo_env (Sent demo_client) (bytes_of_string ''user'') = Inr [30, 25]"
    by (simp add: demo_env_def demo_client_def)
  have nr: "ASRep_Unmarshal demo_env [30, 25] = Inl (External ''asn1'')"
    by (simp add: demo_env_def)
  have ke: "KRBError_Unmarshal demo_env [30, 25] = Inr \<lparr>ErrorCode = 25, EData = []\<rparr>"
    by (simp add: demo_env_def)
  have code: "ErrorCode \<lparr>ErrorCode = 25, EData = []\<rparr> = KDC_ERR_PREAUTH_REQUIRED"
    by (simp add: KDC_ERR_PREAUTH_REQUIRED_def)
  have ts: "GetPAEncTSEncAsnMarshalled demo_env = Inr demo_pt"
    by (simp add: demo_env_def)
  have ids: "rev (sort (Default_tkt_enctype_ids (LibDefaults (Config demo_client)))) = 17 # []"
    by (simp add: demo_client_def)
  have et: "GetEtype (Registry demo_env) 17 = Inr (demo_etype 17 16)"
    by (simp add: demo_env_def demo_GetEtype17)
  have key: "demo_key = fst (GetEncryptionKey demo_env (Keytab (Credentials demo_client))
                 (Username (Credentials demo_client))
                 (Default_realm (LibDefaults (Config demo_client))) 1 (GetETypeID (demo_etype 17 16)))"
    by (simp add: demo_env_def demo_client_def demo_key_def demo_etype_def)
  have ed: "GetEncryptedData (Registry demo_env) (Rand demo_env) demo_pt demo_key 0 1 = Inr ?ed"
    using demo_ed0 by (simp add: demo_env_def)
  have b': "ASReq_Marshal demo_env
              (?a\<lparr>PAData := PAData ?a @ [\<lparr>PADataType = PA_ENC_TIMESTAMP, PADataValue = Cipher ?ed\<rparr>]\<rparr>)
            = Inr ?b'"
    by (simp add: demo_env_def demo_client_def)
  show ?thesis
    using ASExchange_preauth_usage [OF cfg refl b rb nr ke code ts ids et key ed b'] cfg rb ke ed
    by (simp add: demo_client_def)
qed

subsection \<open>TGS exchange\<close>

lemma TGSExchange_keeps:
  assumes "TGSExchange V cl spn renewal = (r, cl1)"
  shows "Cache cl1 = Cache cl \<and> Session cl1 = Session cl \<and> Config cl1 = Config cl
         \<and> Credentials cl1 = Credentials cl"
  using assms
  by (auto simp: TGSExchange_def SendToKDC_def split: option.splits sum.splits prod.splits if_splits)

text \<open>
  C8. \<open>TGSExchange\<close> on a client whose session is nil returns an error and leaves the
  client as it is: no request is built or sent, and \<open>GetServiceTicket\<close> returns that
  error. With a session, \<open>GetServiceTicket\<close> returns the error of the first step that
  fails (construction of the request, marshalling, transport, unmarshalling, decryption,
  validation) with the cache as it was, and, when every step succeeds, returns no error
  and writes exactly one entry into the cache: the ticket and the times of the decrypted
  reply, under the name of the ticket's service. Whenever it returns an error the cache
  is unchanged.
\<close>

theorem TGS_session_and_cache:
  "(Session cl = None \<longrightarrow>
            TGSExchange V cl spn renewal =
              (Inl (ErrorsNew ''Error client does not have a session. Client needs to login first''), cl)
            \<and> GetServiceTicket V cl s =
              (Some (ErrorsNew ''Error client does not have a session. Client needs to login first''), cl))
       \<and> (\<forall>sess. Session cl = Some sess \<longrightarrow>
            (\<forall>e. NewTGSReq V (Username (Credentials cl)) (Config cl) (TGT sess) (SessionKey sess)
                     \<lparr>NameType = KRB_NT_PRINCIPAL, NameString = split_slash [] s\<rparr> False = Inl e \<longrightarrow>
               GetServiceTicket V cl s = (Some (Errorf ''Error generating New TGS_REQ'' e), cl))
          \<and> (\<forall>q. NewTGSReq V (Username (Credentials cl)) (Config cl) (TGT sess) (SessionKey sess)
                     \<lparr>NameType = KRB_NT_PRINCIPAL, NameString = split_slash [] s\<rparr> False = Inr q \<longrightarrow>
               (\<forall>e. TGSReq_Marshal V q = Inl e \<longrightarrow>
                  GetServiceTicket V cl s = (Some (Errorf ''Error marshalling TGS_REQ'' e), cl))
             \<and> (\<forall>b. TGSReq_Marshal V q = Inr b \<longrightarrow>
                  (\<forall>e. KDC V (Sent cl) b = Inl e \<longrightarrow>
                     GetServiceTicket V cl s =
                       (Some (Errorf ''Error sending TGS_REQ to KDC'' e), cl\<lparr>Sent := Sent cl @ [b]\<rparr>))
                \<and> (\<forall>r. KDC V (Sent cl) b = Inr r \<longrightarrow>
                     (\<forall>e. TGSRep_Unmarshal V r = Inl e \<longrightarrow>
                        GetServiceTicket V cl s =
                          (Some (Errorf ''Error unmarshalling TGS_REP'' e), cl\<lparr>Sent := Sent cl @ [b]\<rparr>))
                   \<and> (\<forall>rep. TGSRep_Unmarshal V r = Inr rep \<longrightarrow>
                        (\<forall>e. TGSRep_DecryptEncPart V (SessionKey sess) rep = Inl e \<longrightarrow>
                           GetServiceTicket V cl s =
                             (Some (Errorf ''Error decrypting EncPart of TGS_REP'' e),
                              cl\<lparr>Sent := Sent cl @ [b]\<rparr>))
                      \<and> (\<forall>rep1. TGSRep_DecryptEncPart V (SessionKey sess) rep = Inr rep1 \<longrightarrow>
                           (\<forall>e. TGSRep_IsValid V (Config cl) q rep1 = (False, e) \<longrightarrow>
                              GetServiceTicket V cl s =
                                (Some (Errorf ''TGS_REP is not valid'' e), cl\<lparr>Sent := Sent cl @ [b]\<rparr>))
                         \<and> (\<forall>e. TGSRep_IsValid V (Config cl) q rep1 = (True, e) \<longrightarrow>
                              GetServiceTicket V cl s =
                                (None,
                                 cl\<lparr>Sent := Sent cl @ [b],
                                    Cache := (Cache cl)(NameString (SName (Rep_Ticket rep1)) \<mapsto>
                                      \<lparr>Entry_Ticket = Rep_Ticket rep1,
                                       Entry_AuthTime = Enc_AuthTime (DecryptedEncPart rep1),
                                       Entry_EndTime = Enc_EndTime (DecryptedEncPart rep1),
                                       Entry_RenewTill = Enc_RenewTill (DecryptedEncPart rep1)\<rparr>)\<rparr>))))))))
       \<and> (fst (GetServiceTicket V cl s) \<noteq> None \<longrightarrow>
            Cache (snd (GetServiceTicket V cl s)) = Cache cl)"
proof (intro conjI)
  show "Session cl = None \<longrightarrow>
            TGSExchange V cl spn renewal =
              (Inl (ErrorsNew ''Error client does not have a session. Client needs to login first''), cl)
            \<and> GetServiceTicket V cl s =
              (Some (ErrorsNew ''Error client does not have a session. Client needs to login first''), cl)"
    by (simp add: TGSExchange_def GetServiceTicket_def)
next
  show "fst (GetServiceTicket V cl s) \<noteq> None \<longrightarrow>
            Cache (snd (GetServiceTicket V cl s)) = Cache cl"
  proof
    assume f: "fst (GetServiceTicket V cl s) \<noteq> None"
    let ?princ = "\<lparr>NameType = KRB_NT_PRINCIPAL, NameString = split_slash [] s\<rparr>"
    obtain r cl1 where t: "TGSExchange V cl ?princ False = (r, cl1)"
      by (cases "TGSExchange V cl ?princ False") auto
    have k: "Cache cl1 = Cache cl" using TGSExchange_keeps [OF t] by simp
    show "Cache (snd (GetServiceTicket V cl s)) = Cache cl"
      using f t k
      by (auto simp: GetServiceTicket_def Let_def split: sum.splits prod.splits)
  qed
next
  show "\<forall>sess. Session cl = Some sess \<longrightarrow>
            (\<forall>e. NewTGSReq V (Username (Credentials cl)) (Config cl) (TGT sess) (SessionKey sess)
                     \<lparr>NameType = KRB_NT_PRINCIPAL, NameString = split_slash [] s\<rparr> False = Inl e \<longrightarrow>
               GetServiceTicket V cl s = (Some (Errorf ''Error generating New TGS_REQ'' e), cl))
          \<and> (\<forall>q. NewTGSReq V (Username (Credentials cl)) (Config cl) (TGT sess) (SessionKey sess)
                     \<lparr>NameType = KRB_NT_PRINCIPAL, NameString = split_slash [] s\<rparr> False = Inr q \<longrightarrow>
               (\<forall>e. TGSReq_Marshal V q = Inl e \<longrightarrow>
                  GetServiceTicket V cl s = (Some (Errorf ''Error marshalling TGS_REQ'' e), cl))
             \<and> (\<forall>b. TGSReq_Marshal V q = Inr b \<longrightarrow>
                  (\<forall>e. KDC V (Sent cl) b = Inl e \<longrightarrow>
                     GetServiceTicket V cl s =
                       (Some (Errorf ''Error sending TGS_REQ to KDC'' e), cl\<lparr>Sent := Sent cl @ [b]\<rparr>))
                \<and> (\<forall>r. KDC V (Sent cl) b = Inr r \<longrightarrow>
                     (\<forall>e. TGSRep_Unmarshal V r = Inl e \<longrightarrow>
                        GetServiceTicket V cl s =
                          (Some (Errorf ''Error unmarshalling TGS_REP'' e), cl\<lparr>Sent := Sent cl @ [b]\<rparr>))
                   \<and> (\<forall>rep. TGSRep_Unmarshal V r = Inr rep \<longrightarrow>
                        (\<forall>e. TGSRep_DecryptEncPart V (SessionKey sess) rep = Inl e \<longrightarrow>
                           GetServiceTicket V cl s =
                             (Some (Errorf ''Error decrypting EncPart of TGS_REP'' e),
                              cl\<lparr>Sent := Sent cl @ [b]\<rparr>))
                      \<and> (\<forall>rep1. TGSRep_DecryptEncPart V (SessionKey sess) rep = Inr rep1 \<longrightarrow>
                           (\<forall>e. TGSRep_IsValid V (Config cl) q rep1 = (False, e) \<longrightarrow>
                              GetServiceTicket V cl s =
                                (Some (Errorf ''TGS_REP is not valid'' e), cl\<lparr>Sent := Sent cl @ [b]\<rparr>))
                         \<and> (\<forall>e. TGSRep_IsValid V (Config cl) q rep1 = (True, e) \<longrightarrow>
                              GetServiceTicket V cl s =
                                (None,
                                 cl\<lparr>Sent := Sent cl @ [b],
                                    Cache := (Cache cl)(NameString (SName (Rep_Ticket rep1)) \<mapsto>
                                      \<lparr>Entry_Ticket = Rep_Ticket rep1,
                                       Entry_AuthTime = Enc_AuthTime (DecryptedEncPart rep1),
                                       Entry_EndTime = Enc_EndTime (DecryptedEncPart rep1),
                                       Entry_RenewTill = Enc_RenewTill (DecryptedEncPart rep1)\<rparr>)\<rparr>)))))))"
    by (simp add: GetServiceTicket_def TGSExchange_def SendToKDC_def AddEntry_def Let_def)
qed

text \<open>
  A client without a session; then the same client with a session asking for
  \<open>HTTP/www.example.com\<close>, once for each step that fails and once with every step
  succeeding.
\<close>

theorem TGS_session_and_cache_witness:
  "GetServiceTicket demo_tgs_env demo_client ''HTTP/www.example.com'' =
     (Some (ErrorsNew ''Error client does not have a session. Client needs to login first''),
      demo_client)
   \<and> GetServiceTicket (demo_tgs_env\<lparr>NewTGSReq := (\<lambda>u g t k spn r. Inl (External ''request''))\<rparr>)
        (demo_client\<lparr>Session := Some demo_session\<rparr>) ''HTTP/www.example.com'' =
       (Some (Errorf ''Error generating New TGS_REQ'' (External ''request'')),
        demo_client\<lparr>Session := Some demo_session\<rparr>)
   \<and> GetServiceTicket (demo_tgs_env\<lparr>TGSReq_Marshal := (\<lambda>q. Inl (External ''marshal''))\<rparr>)
        (demo_client\<lparr>Session := Some demo_session\<rparr>) ''HTTP/www.example.com'' =
       (Some (Errorf ''Error marshalling TGS_REQ'' (External ''marshal'')),
        demo_client\<lparr>Session := Some demo_session\<rparr>)
   \<and> GetServiceTicket (demo_tgs_env\<lparr>KDC := (\<lambda>sent b. Inl (External ''network''))\<rparr>)
        (demo_client\<lparr>Session := Some demo_session\<rparr>) ''HTTP/www.example.com'' =
       (Some (Errorf ''Error sending TGS_REQ to KDC'' (External ''network'')),
        demo_client\<lparr>Session := Some demo_session, Sent := [bytes_of_string ''HTTPwww.example.com'']\<rparr>)
   \<and> GetServiceTicket (demo_tgs_env\<lparr>KDC := (\<lambda>sent b. Inr [30])\<rparr>)
        (demo_client\<lparr>Session := Some demo_session\<rparr>) ''HTTP/www.example.com'' =
       (Some (Errorf ''Error unmarshalling TGS_REP'' (External ''asn1'')),
        demo_client\<lparr>Session := Some demo_session, Sent := [bytes_of_string ''HTTPwww.example.com'']\<rparr>)
   \<and> GetServiceTicket (demo_tgs_env\<lparr>TGSRep_DecryptEncPart := (\<lambda>k r. Inl (External ''integrity''))\<rparr>)
        (demo_client\<lparr>Session := Some demo_session\<rparr>) ''HTTP/www.example.com'' =
       (Some (Errorf ''Error decrypting EncPart of TGS_REP'' (External ''integrity'')),
        demo_client\<lparr>Session := Some demo_session, Sent := [bytes_of_string ''HTTPwww.example.com'']\<rparr>)
   \<and> GetServiceTicket (demo_tgs_env\<lparr>TGSRep_IsValid := (\<lambda>g q r. (False, External ''nonce''))\<rparr>)
        (demo_client\<lparr>Session := Some demo_session\<rparr>) ''HTTP/www.example.com'' =
       (Some (Errorf ''TGS_REP is not valid'' (External ''nonce'')),
        demo_client\<lparr>Session := Some demo_session, Sent := [bytes_of_string ''HTTPwww.example.com'']\<rparr>)
   \<and> GetServiceTicket demo_tgs_env (demo_client\<lparr>Session := Some demo_session\<rparr>)
        ''HTTP/www.example.com'' =
       (None,
        demo_client\<lparr>Session := Some demo_session,
                      Sent := [bytes_of_string ''HTTPwww.example.com''],
                      Cache := (Cache demo_client)([''HTTP'', ''www.example.com''] \<mapsto>
                         \<lparr>Entry_Ticket = demo_service_ticket, Entry_AuthTime = 100,
                          Entry_EndTime = 250, Entry_RenewTill = 300\<rparr>)\<rparr>)"
proof -
  let ?s = "''HTTP/www.example.com''"
  let ?cl = "demo_client\<lparr>Session := Some demo_session\<rparr>"
  let ?q = "\<lparr>TGS_PAData = [], TGS_ReqBody = bytes_of_string ''HTTPwww.example.com''\<rparr>"
  let ?b = "bytes_of_string ''HTTPwww.example.com''"
  have sp: "split_slash [] ?s = [''HTTP'', ''www.example.com'']" by simp
  have n: "Session demo_client = None" by (simp add: demo_client_def)
  have ss: "Session ?cl = Some demo_session" by simp
  have sent: "Sent ?cl = []" by (simp add: demo_client_def)
  have c1: "GetServiceTicket demo_tgs_env demo_client ?s =
     (Some (ErrorsNew ''Error client does not have a session. Client needs to login first''),
      demo_client)"
    using TGS_session_and_cache [of demo_client demo_tgs_env _ _ ?s] n by blast
  let ?V2 = "demo_tgs_env\<lparr>NewTGSReq := (\<lambda>u g t k spn r. Inl (External ''request''))\<rparr>"
  have c2: "GetServiceTicket ?V2 ?cl ?s =
       (Some (Errorf ''Error generating New TGS_REQ'' (External ''request'')), ?cl)"
    using TGS_session_and_cache [of ?cl ?V2 _ _ ?s] ss by simp
  let ?V3 = "demo_tgs_env\<lparr>TGSReq_Marshal := (\<lambda>q. Inl (External ''marshal''))\<rparr>"
  have c3: "GetServiceTicket ?V3 ?cl ?s =
       (Some (Errorf ''Error marshalling TGS_REQ'' (External ''marshal'')), ?cl)"
    using TGS_session_and_cache [of ?cl ?V3 _ _ ?s] ss
    by (simp add: demo_tgs_env_def demo_env_def)
  let ?V4 = "demo_tgs_env\<lparr>KDC := (\<lambda>sent b. Inl (External ''network''))\<rparr>"
  have c4: "GetServiceTicket ?V4 ?cl ?s =
       (Some (Errorf ''Error sending TGS_REQ to KDC'' (External ''network'')),
        ?cl\<lparr>Sent := [?b]\<rparr>)"
    using TGS_session_and_cache [of ?cl ?V4 _ _ ?s] ss sent
    by (simp add: demo_tgs_env_def demo_env_def)
  let ?V5 = "demo_tgs_env\<lparr>KDC := (\<lambda>sent b. Inr [30])\<rparr>"
  have c5: "GetServiceTicket ?V5 ?cl ?s =
       (Some (Errorf ''Error unmarshalling TGS_REP'' (External ''asn1'')), ?cl\<lparr>Sent := [?b]\<rparr>)"
    using TGS_session_and_cache [of ?cl ?V5 _ _ ?s] ss sent
    by (simp add: demo_tgs_env_def demo_env_def)
  let ?V6 = "demo_tgs_env\<lparr>TGSRep_DecryptEncPart := (\<lambda>k r. Inl (External ''integrity''))\<rparr>"
  have c6: "GetServiceTicket ?V6 ?cl ?s =
       (Some (Errorf ''Error decrypting EncPart of TGS_REP'' (External ''integrity'')),
        ?cl\<lparr>Sent := [?b]\<rparr>)"
    using TGS_session_and_cache [of ?cl ?V6 _ _ ?s] ss sent
    by (simp add: demo_tgs_env_def demo_env_def)
  let ?V7 = "demo_tgs_env\<lparr>TGSRep_IsValid := (\<lambda>g q r. (False, External ''nonce''))\<rparr>"
  have c7: "GetServiceTicket ?V7 ?cl ?s =
       (Some (Errorf ''TGS_REP is not valid'' (External ''nonce'')), ?cl\<lparr>Sent := [?b]\<rparr>)"
    using TGS_session_and_cache [of ?cl ?V7 _ _ ?s] ss sent
    by (simp add: demo_tgs_env_def demo_env_def)
  have c8: "GetServiceTicket demo_tgs_env ?cl ?s =
       (None,
        ?cl\<lparr>Sent := [?b],
            Cache := (Cache demo_client)([''HTTP'', ''www.example.com''] \<mapsto>
                         \<lparr>Entry_Ticket = demo_service_ticket, Entry_AuthTime = 100,
                          Entry_EndTime = 250, Entry_RenewTill = 300\<rparr>)\<rparr>)"
    using TGS_session_and_cache [of ?cl demo_tgs_env _ _ ?s] ss sent
    by (simp add: demo_tgs_env_def demo_env_def demo_tgsrep_def demo_service_ticket_def)
  show ?thesis
    using c1 c2 c3 c4 c5 c6 c7 c8 by simp
qed

subsection \<open>AP-REQ\<close>

text \<open>
  C9. For every byte string that the ASN.1 layer decodes as an AP-REQ structure,
  \<open>APReq.Unmarshal\<close> returns an error when the decoded msg-type is not 14; when it is
  14 and the embedded ticket unmarshals, it returns no error and the receiver holds the
  decoded pvno, msg-type, ap-options and authenticator and the unmarshalled ticket.
\<close>

theorem APReq_Unmarshal_msg_type:
  assumes "asn1_UnmarshalWithParams M b APREQ = Inr m"
  shows "(MsgType_m m \<noteq> 14 \<longrightarrow> fst (APReq_Unmarshal M a b) \<noteq> None)
         \<and> (MsgType_m m = 14 \<and> snd (UnmarshalTicket M (Bytes (Ticket_m m))) = None \<longrightarrow>
              APReq_Unmarshal M a b =
                (None, \<lparr>PVNO = PVNO_m m, MsgType = 14, APOptions = APOptions_m m,
                        Ticket = fst (UnmarshalTicket M (Bytes (Ticket_m m))),
                        Authenticator = Authenticator_m m\<rparr>))"
  using assms
  by (cases "UnmarshalTicket M (Bytes (Ticket_m m))")
     (auto simp: APReq_Unmarshal_def KRB_AP_REQ_def Let_def split: option.splits)

text \<open>A message of type 14 and a message of type 13.\<close>

theorem APReq_Unmarshal_msg_type_witness:
  "asn1_UnmarshalWithParams demo_messages_codec [14, 1] APREQ =
     Inr \<lparr>PVNO_m = 5, MsgType_m = 14,
          APOptions_m = \<lparr>BitBytes = [0, 0, 0, 0], BitLength = 32\<rparr>,
          Ticket_m = \<lparr>Class = 2, Tag = 3, IsCompound = True, Bytes = [1]\<rparr>,
          Authenticator_m = \<lparr>EType = 17, KVNO = 0, Cipher = [9]\<rparr>\<rparr>
   \<and> UnmarshalTicket demo_messages_codec [1] = (demo_service_ticket, None)
   \<and> APReq_Unmarshal demo_messages_codec demo_apreq [14, 1] =
       (None, \<lparr>PVNO = 5, MsgType = 14, APOptions = \<lparr>BitBytes = [0, 0, 0, 0], BitLength = 32\<rparr>,
               Ticket = demo_service_ticket,
               Authenticator = \<lparr>EType = 17, KVNO = 0, Cipher = [9]\<rparr>\<rparr>)
   \<and> asn1_UnmarshalWithParams demo_messages_codec [13, 1] APREQ =
       Inr \<lparr>PVNO_m = 5, MsgType_m = 13,
            APOptions_m = \<lparr>BitBytes = [0, 0, 0, 0], BitLength = 32\<rparr>,
            Ticket_m = \<lparr>Class = 2, Tag = 3, IsCompound = True, Bytes = [1]\<rparr>,
            Authenticator_m = \<lparr>EType = 17, KVNO = 0, Cipher = [9]\<rparr>\<rparr>
   \<and> fst (APReq_Unmarshal demo_messages_codec demo_apreq [13, 1]) \<noteq> None"
proof -
  let ?m = "\<lambda>t. \<lparr>PVNO_m = 5, MsgType_m = t,
          APOptions_m = \<lparr>BitBytes = [0, 0, 0, 0], BitLength = 32\<rparr>,
          Ticket_m = \<lparr>Class = 2, Tag = 3, IsCompound = True, Bytes = [1]\<rparr>,
          Authenticator_m = \<lparr>EType = 17, KVNO = 0, Cipher = [9]\<rparr>\<rparr>"
  have d14: "asn1_UnmarshalWithParams demo_messages_codec [14, 1] APREQ = Inr (?m 14)"
    by (simp add: demo_messages_codec_def)
  have d13: "asn1_UnmarshalWithParams demo_messages_codec [13, 1] APREQ = Inr (?m 13)"
    by (simp add: demo_messages_codec_def)
  have t: "UnmarshalTicket demo_messages_codec [1] = (demo_service_ticket, None)"
    by (simp add: demo_messages_codec_def)
  show ?thesis
    using APReq_Unmarshal_msg_type [OF d14, of demo_apreq]
      APReq_Unmarshal_msg_type [OF d13, of demo_apreq] d14 d13 t
    by simp
qed

end
